theory Spec2Isabelle
  imports Complex_Main
begin

section \<open>The ruler module of tomviz (ModuleRuler.cxx)\<close>

text \<open>
  ModuleRuler is an adapter between tomviz and its host frameworks (the ParaView
  proxy layer, VTK, Qt, pugixml). The module's own functions are embedded below line
  by line. The host calls they make are embedded as small functions on an explicit
  host state: a store of proxy objects addressed by numbers, the controller's list of
  registered proxies and the list of signal connections.

  A C++ \<open>double\<close> is a \<open>real\<close>: the module only stores, copies and compares
  coordinates and scalars, it never computes with them.
\<close>

subsection \<open>Pointers, properties and proxies\<close>

text \<open>A \<open>vtkSMProxy*\<close> is an optional address; \<open>None\<close> is \<open>nullptr\<close>.\<close>

type_synonym proxy_ptr = "nat option"

datatype prop_value = DoubleVec "real list" | IntVec "int list"

record proxy =
  props :: "string \<rightharpoonup> prop_value"
  label_format :: "string option"

text \<open>
  \<open>label_format\<close> is the label format of the client-side object when that object
  is a \<open>vtkRulerSourceRepresentation\<close>, and \<open>None\<close> when the down-cast yields null.
\<close>

datatype error = NullDereference | OutOfBounds | PropertyMismatch

text \<open>
  The signal connections the module's functions below depend on: the one made at the
  end of \<open>initialize\<close>, and the one \<open>addToPanel\<close> makes from the widget's
  \<open>widgetVisibilityUpdated(bool)\<close> to the slot \<open>updateShowLine(bool)\<close>.
\<close>

datatype connection =
  DataChanged_updateUnits
  | WidgetVisibilityUpdated_updateShowLine

record host =
  proxies :: "nat \<Rightarrow> proxy"
  next_proxy :: nat
  definitions :: "(string \<times> string) list"
  registered :: "nat list"
  connections :: "connection list"

subsection \<open>The data source and its image\<close>

text \<open>\<open>double bounds[6]\<close>: xmin, xmax, ymin, ymax, zmin, zmax.\<close>

datatype bounds6 = Bounds real real real real real real

fun bounds_at :: "bounds6 \<Rightarrow> nat \<Rightarrow> real" where
  "bounds_at (Bounds b0 b1 b2 b3 b4 b5) i =
     (if i = 0 then b0 else if i = 1 then b1 else if i = 2 then b2
      else if i = 3 then b3 else if i = 4 then b4 else b5)"

text \<open>
  The image behind a data source, as far as the module looks at it: its bounds, the
  host's point lookup (\<open>vtkImageData::FindPoint\<close>, which answers -1 when it finds no
  sample for the coordinates) and the scalar array of the point data (null when the
  image has no scalars).
\<close>

record vtkImageData =
  GetBounds :: bounds6
  FindPoint :: "real list \<Rightarrow> int"
  GetScalars :: "real list option"

text \<open>Modelled from the spec: the class DataSource (DataSource.h and DataSource.cxx are
  not among the sources). The spec's data source collaborator "exposes bounding
  geometry, a per-channel unit string, and the underlying sampled grid". \<open>ds_proxy\<close>
  is \<open>proxy()\<close>; \<open>ds_output\<close> is output 0 of the producer, which is also the
  client-side object of the proxy, and is \<open>None\<close> when a link of the down-cast chain
  is null; \<open>ds_units\<close> is \<open>getUnits(0)\<close>.
\<close>

record DataSource =
  ds_proxy :: proxy_ptr
  ds_output :: "vtkImageData option"
  ds_units :: string

subsection \<open>The module's members\<close>

record widget =
  widget_visible :: bool

record module_ruler =
  m_rulerSource :: proxy_ptr
  m_representation :: proxy_ptr
  m_widget :: "widget option"
  m_showLine :: bool
  m_activeDataSource :: "DataSource option"

type_synonym state = "module_ruler \<times> host"

datatype event = newEndpointData real real | renderNeeded

subsection \<open>Host calls\<close>

text \<open>
  \<open>vtkSMPropertyHelper(proxy, name)\<close> dereferences the proxy it is given; \<open>Set\<close>
  stores the value under the property's name.
\<close>

definition PropertyHelper_Set :: "proxy_ptr \<Rightarrow> string \<Rightarrow> prop_value \<Rightarrow> host \<Rightarrow> error + host" where
  "PropertyHelper_Set p name v h =
     (case p of
        None \<Rightarrow> Inl NullDereference
      | Some a \<Rightarrow>
          Inr (h\<lparr>proxies := (proxies h)(a := (proxies h a)\<lparr>props := (props (proxies h a))(name \<mapsto> v)\<rparr>)\<rparr>))"

text \<open>\<open>Get(values, 3)\<close> fills the three doubles only from a property that has them.\<close>

definition PropertyHelper_Get3 :: "proxy_ptr \<Rightarrow> string \<Rightarrow> host \<Rightarrow> error + real list" where
  "PropertyHelper_Get3 p name h =
     (case p of
        None \<Rightarrow> Inl NullDereference
      | Some a \<Rightarrow>
          (case props (proxies h a) name of
             Some (DoubleVec xs) \<Rightarrow> if length xs = 3 then Inr xs else Inl PropertyMismatch
           | _ \<Rightarrow> Inl PropertyMismatch))"

definition PropertyHelper_GetAsInt :: "nat \<Rightarrow> string \<Rightarrow> host \<Rightarrow> int" where
  "PropertyHelper_GetAsInt a name h =
     (case props (proxies h a) name of
        Some (IntVec (i # _)) \<Rightarrow> i
      | Some (DoubleVec (x # _)) \<Rightarrow> (if 0 \<le> x then \<lfloor>x\<rfloor> else \<lceil>x\<rceil>)
      | _ \<Rightarrow> 0)"

definition UpdateVTKObjects :: "proxy_ptr \<Rightarrow> host \<Rightarrow> error + host" where
  "UpdateVTKObjects p h = (case p of None \<Rightarrow> Inl NullDereference | Some _ \<Rightarrow> Inr h)"

text \<open>\<open>pxm->NewProxy(group, name)\<close> is null when the session has no such definition.\<close>

definition NewProxy :: "string \<Rightarrow> string \<Rightarrow> host \<Rightarrow> proxy_ptr \<times> host" where
  "NewProxy grp name h =
     (if (grp, name) \<in> set (definitions h)
      then (Some (next_proxy h),
            h\<lparr>proxies := (proxies h)(next_proxy h := \<lparr>props = Map.empty, label_format = None\<rparr>),
              next_proxy := Suc (next_proxy h)\<rparr>)
      else (None, h))"

definition RegisterPipelineProxy :: "proxy_ptr \<Rightarrow> host \<Rightarrow> host" where
  "RegisterPipelineProxy p h =
     (case p of None \<Rightarrow> h | Some a \<Rightarrow> h\<lparr>registered := registered h @ [a]\<rparr>)"

definition UnRegisterProxy :: "proxy_ptr \<Rightarrow> host \<Rightarrow> host" where
  "UnRegisterProxy p h =
     (case p of None \<Rightarrow> h | Some a \<Rightarrow> h\<lparr>registered := removeAll a (registered h)\<rparr>)"

text \<open>
  \<open>controller->Show(producer, 0, view)\<close> makes and registers a visible representation
  of the producer in the view, or answers null without a producer or a view.
\<close>

definition controller_Show :: "proxy_ptr \<Rightarrow> nat option \<Rightarrow> host \<Rightarrow> proxy_ptr \<times> host" where
  "controller_Show producer view h =
     (case producer of
        None \<Rightarrow> (None, h)
      | Some _ \<Rightarrow>
          (case view of
             None \<Rightarrow> (None, h)
           | Some _ \<Rightarrow>
               (Some (next_proxy h),
                h\<lparr>proxies := (proxies h)(next_proxy h :=
                     \<lparr>props = [''Visibility'' \<mapsto> IntVec [1]], label_format = Some []\<rparr>),
                  next_proxy := Suc (next_proxy h),
                  registered := registered h @ [next_proxy h]\<rparr>)))"

definition connect :: "connection \<Rightarrow> host \<Rightarrow> host" where
  "connect c h = h\<lparr>connections := connections h @ [c]\<rparr>"

text \<open>\<open>GetTuple1(i)\<close> reads the array without a range check.\<close>

definition GetTuple1 :: "real list \<Rightarrow> int \<Rightarrow> error + real" where
  "GetTuple1 arr i =
     (if 0 \<le> i \<and> i < int (length arr) then Inr (arr ! nat i) else Inl OutOfBounds)"

subsection \<open>Base class\<close>

text \<open>Modelled from the spec: Module::initialize (the base class Module is not among the
  sources). The spec says that initialize "fails if prerequisite initialization (from a
  base module contract) fails"; the verdict of the base class is the parameter
  \<open>base_ok\<close>, and the data source it is given is the one the module works on from
  then on.
\<close>

definition Module_initialize ::
  "bool \<Rightarrow> DataSource option \<Rightarrow> nat option \<Rightarrow> module_ruler \<Rightarrow> bool \<times> module_ruler" where
  "Module_initialize base_ok data view m = (base_ok, m\<lparr>m_activeDataSource := data\<rparr>)"

text \<open>Modelled from the spec: Module::dataSource (the base class Module is not among the
  sources); it answers the data source the module was initialized with.
\<close>

definition dataSource :: "module_ruler \<Rightarrow> DataSource option" where
  "dataSource m = m_activeDataSource m"

subsection \<open>ModuleRuler: life cycle\<close>

definition updateUnits :: "state \<Rightarrow> error + state" where
  "updateUnits s =
     (case s of (m, h) \<Rightarrow>
        (case dataSource m of
           None \<Rightarrow> Inl NullDereference
         | Some source \<Rightarrow>
             (let units = ds_units source in
              case m_representation m of
                None \<Rightarrow> Inl NullDereference
              | Some r \<Rightarrow>
                  (case label_format (proxies h r) of
                     None \<Rightarrow> Inl NullDereference
                   | Some _ \<Rightarrow>
                       Inr (m, h\<lparr>proxies := (proxies h)(r :=
                              (proxies h r)\<lparr>label_format := Some (''%-#6.3g '' @ units)\<rparr>)\<rparr>)))))"

definition updateShowLine :: "bool \<Rightarrow> module_ruler \<Rightarrow> module_ruler" where
  "updateShowLine show m = m\<lparr>m_showLine := show\<rparr>"

definition initialize ::
  "bool \<Rightarrow> DataSource option \<Rightarrow> nat option \<Rightarrow> state \<Rightarrow> error + (bool \<times> state)" where
  "initialize base_ok data view s =
     (case s of (m, h) \<Rightarrow>
        (case Module_initialize base_ok data view m of (ok, m0) \<Rightarrow>
           if \<not> ok then Inr (False, (m0, h))
           else
             (case data of
                None \<Rightarrow> Inl NullDereference
              | Some d \<Rightarrow>
             (case ds_proxy d of
                None \<Rightarrow> Inl NullDereference
              | Some _ \<Rightarrow>
             (case ds_output d of
                None \<Rightarrow> Inl NullDereference
              | Some img \<Rightarrow>
             (let bounds = GetBounds img;
                  boundsMin = [bounds_at bounds 0, bounds_at bounds 2, bounds_at bounds 4];
                  boundsMax = [bounds_at bounds 1, bounds_at bounds 3, bounds_at bounds 5]
              in
             (case NewProxy ''sources'' ''Ruler'' h of (p, h1) \<Rightarrow>
             (let m1 = m0\<lparr>m_rulerSource := p\<rparr> in
             (case PropertyHelper_Set (m_rulerSource m1) ''Point1'' (DoubleVec boundsMin) h1 of
                Inl e \<Rightarrow> Inl e
              | Inr h2 \<Rightarrow>
             (case PropertyHelper_Set (m_rulerSource m1) ''Point2'' (DoubleVec boundsMax) h2 of
                Inl e \<Rightarrow> Inl e
              | Inr h3 \<Rightarrow>
             (case UpdateVTKObjects (m_rulerSource m1) h3 of
                Inl e \<Rightarrow> Inl e
              | Inr h4 \<Rightarrow>
             (let h5 = RegisterPipelineProxy (m_rulerSource m1) h4 in
             (case controller_Show (m_rulerSource m1) view h5 of (r, h6) \<Rightarrow>
             (let m2 = m1\<lparr>m_representation := r\<rparr> in
             (case UpdateVTKObjects (m_representation m2) h6 of
                Inl e \<Rightarrow> Inl e
              | Inr h7 \<Rightarrow>
             (case updateUnits (m2, h7) of
                Inl e \<Rightarrow> Inl e
              | Inr (m3, h8) \<Rightarrow>
             (let h9 = connect DataChanged_updateUnits h8 in
              Inr (m_representation m3 \<noteq> None \<and> m_rulerSource m3 \<noteq> None, (m3, h9))
             )))))))))))))))))"

definition finalize :: "state \<Rightarrow> bool \<times> state" where
  "finalize s =
     (case s of (m, h) \<Rightarrow>
        (let h1 = UnRegisterProxy (m_representation m) h;
             h2 = UnRegisterProxy (m_rulerSource m) h1
         in (True, (m\<lparr>m_representation := None, m_rulerSource := None\<rparr>, h2))))"

text \<open>The destructor runs \<open>finalize()\<close> and drops its answer.\<close>

definition ModuleRuler_destructor :: "state \<Rightarrow> state" where
  "ModuleRuler_destructor s = snd (finalize s)"

subsection \<open>ModuleRuler: proxies and their names\<close>

definition isProxyPartOfModule :: "module_ruler \<Rightarrow> proxy_ptr \<Rightarrow> bool" where
  "isProxyPartOfModule m proxy \<longleftrightarrow> proxy = m_rulerSource m \<or> proxy = m_representation m"

text \<open>The second component lists the warnings printed by \<open>qWarning\<close>.\<close>

definition getStringForProxy :: "module_ruler \<Rightarrow> proxy_ptr \<Rightarrow> string \<times> string list" where
  "getStringForProxy m proxy =
     (if proxy = m_rulerSource m then (''Ruler'', [])
      else if proxy = m_representation m then (''Representation'', [])
      else ([], [''Unknown proxy passed to module ruler in save animation'']))"

definition getProxyForString :: "module_ruler \<Rightarrow> string \<Rightarrow> proxy_ptr" where
  "getProxyForString m str =
     (if str = ''Ruler'' then m_rulerSource m
      else if str = ''Representation'' then m_representation m
      else None)"

subsection \<open>ModuleRuler: visibility\<close>

text \<open>
  \<open>m_widget->setWidgetVisible(val)\<close>: the widget takes the value and emits
  \<open>widgetVisibilityUpdated(val)\<close>, which runs the slot \<open>updateShowLine\<close> while the
  two are connected (the comment in \<open>setVisibility\<close> says so).
\<close>

definition setWidgetVisible :: "bool \<Rightarrow> state \<Rightarrow> state" where
  "setWidgetVisible val s =
     (case s of (m, h) \<Rightarrow>
        (case m_widget m of
           None \<Rightarrow> s
         | Some w \<Rightarrow>
             (let m1 = m\<lparr>m_widget := Some (w\<lparr>widget_visible := val\<rparr>)\<rparr> in
              if WidgetVisibilityUpdated_updateShowLine \<in> set (connections h)
              then (updateShowLine val m1, h)
              else (m1, h))))"

definition setVisibility :: "bool \<Rightarrow> state \<Rightarrow> error + (bool \<times> state)" where
  "setVisibility val s =
     (case s of (m, h) \<Rightarrow>
        (case PropertyHelper_Set (m_representation m) ''Visibility''
                (IntVec [if val then 1 else 0]) h of
           Inl e \<Rightarrow> Inl e
         | Inr h1 \<Rightarrow>
        (case UpdateVTKObjects (m_representation m) h1 of
           Inl e \<Rightarrow> Inl e
         | Inr h2 \<Rightarrow>
             (if m_widget m \<noteq> None
              then
                (let oldValue = m_showLine m in
                 case setWidgetVisible (val \<and> m_showLine m) (m, h2) of (m1, h3) \<Rightarrow>
                   (let m2 = m1\<lparr>m_showLine := oldValue\<rparr> in
                    Inr (True, (m2, h3))))
              else Inr (True, (m, h2))))))"

definition visibility :: "state \<Rightarrow> bool" where
  "visibility s =
     (case s of (m, h) \<Rightarrow>
        (case m_representation m of
           Some r \<Rightarrow> PropertyHelper_GetAsInt r ''Visibility'' h \<noteq> 0
         | None \<Rightarrow> False))"

subsection \<open>ModuleRuler: endpoint values\<close>

text \<open>
  \<open>endPointsUpdated()\<close> changes neither the module nor the host; it answers the
  signals it emits, in order.
\<close>

definition endPointsUpdated :: "state \<Rightarrow> error + event list" where
  "endPointsUpdated s =
     (case s of (m, h) \<Rightarrow>
        (case PropertyHelper_Get3 (m_rulerSource m) ''Point1'' h of
           Inl e \<Rightarrow> Inl e
         | Inr point1 \<Rightarrow>
        (case PropertyHelper_Get3 (m_rulerSource m) ''Point2'' h of
           Inl e \<Rightarrow> Inl e
         | Inr point2 \<Rightarrow>
        (case dataSource m of
           None \<Rightarrow> Inl NullDereference
         | Some source \<Rightarrow>
        (case ds_proxy source of
           None \<Rightarrow> Inl NullDereference
         | Some _ \<Rightarrow>
        (case ds_output source of
           None \<Rightarrow> Inl NullDereference
         | Some img \<Rightarrow>
        (let p1 = FindPoint img point1;
             p2 = FindPoint img point2
         in
        (case GetScalars img of
           None \<Rightarrow> Inl NullDereference
         | Some scalars \<Rightarrow>
        (case GetTuple1 scalars p1 of
           Inl e \<Rightarrow> Inl e
         | Inr v1 \<Rightarrow>
        (case GetTuple1 scalars p2 of
           Inl e \<Rightarrow> Inl e
         | Inr v2 \<Rightarrow>
           Inr [newEndpointData v1 v2, renderNeeded]))))))))))"

subsection \<open>Documents (pugixml)\<close>

text \<open>
  An element of the document: its name, its attributes, its children, and the
  property values a serialized proxy keeps in it (empty in every element the module
  itself makes). A null node handle is \<open>None\<close>.
\<close>

datatype xml_node =
  Element (node_name: string) (node_attributes: "(string \<times> string) list")
    (node_values: "(string \<times> prop_value) list") (node_children: "xml_node list")

definition append_child :: "xml_node \<Rightarrow> xml_node \<Rightarrow> xml_node" where
  "append_child n c =
     Element (node_name n) (node_attributes n) (node_values n) (node_children n @ [c])"

definition xml_child :: "xml_node \<Rightarrow> string \<Rightarrow> xml_node option" where
  "xml_child n nm = find (\<lambda>c. node_name c = nm) (node_children n)"

definition xml_attribute :: "xml_node \<Rightarrow> string \<Rightarrow> string option" where
  "xml_attribute n nm = map_of (node_attributes n) nm"

text \<open>\<open>set_value(bool)\<close> writes true or false; \<open>as_bool()\<close> looks at the first character.\<close>

definition set_value :: "bool \<Rightarrow> string" where
  "set_value b = (if b then ''true'' else ''false'')"

definition as_bool :: "string \<Rightarrow> bool" where
  "as_bool v =
     (case v of
        [] \<Rightarrow> False
      | c # _ \<Rightarrow> c = CHR ''1'' \<or> c = CHR ''t'' \<or> c = CHR ''T'' \<or> c = CHR ''y'' \<or> c = CHR ''Y'')"

subsection \<open>ModuleRuler: serialize and deserialize\<close>

text \<open>
  The helpers \<open>tomviz::serialize\<close> and \<open>tomviz::deserialize\<close> of Utilities.h are
  parameters of the two functions: \<open>ser h proxy node properties\<close> answers its
  verdict and the node as it leaves it, \<open>deser proxy node h\<close> its verdict and the
  host as it leaves it.

  \<open>rulerNode\<close> and \<open>representationNode\<close> are handles on the two children appended
  to \<open>ns\<close>, so whatever is written through them is in \<open>ns\<close> when the function
  returns, on every path. The answer is the verdict, the document node and the
  warnings printed.
\<close>

type_synonym serializer = "host \<Rightarrow> proxy_ptr \<Rightarrow> xml_node \<Rightarrow> string list \<Rightarrow> bool \<times> xml_node"
type_synonym deserializer = "proxy_ptr \<Rightarrow> xml_node option \<Rightarrow> host \<Rightarrow> bool \<times> host"

definition serialize :: "serializer \<Rightarrow> state \<Rightarrow> xml_node \<Rightarrow> bool \<times> xml_node \<times> string list" where
  "serialize ser s ns =
     (case s of (m, h) \<Rightarrow>
        (let rulerNode = Element ''Ruler'' [] [] [];
             representationNode = Element ''Representation'' [] [] [];
             rulerProperties = [''Point1'', ''Point2''];
             representationProperties = [''Visibility'']
         in
         case ser h (m_rulerSource m) rulerNode rulerProperties of (ok1, rulerNode1) \<Rightarrow>
           if \<not> ok1
           then (False, append_child (append_child ns rulerNode1) representationNode,
                 [''Failed to serialize ruler''])
           else
             (let showLine = Element ''ShowLine'' [(''value'', set_value (m_showLine m))] [] [];
                  representationNode1 = append_child representationNode showLine
              in
              case ser h (m_representation m) representationNode1 representationProperties of
                (ok2, representationNode2) \<Rightarrow>
                  if \<not> ok2
                  then (False, append_child (append_child ns rulerNode1) representationNode2,
                        [''Failed to serialize ruler representation''])
                  else (True, append_child (append_child ns rulerNode1) representationNode2, []))))"

definition deserialize :: "deserializer \<Rightarrow> xml_node \<Rightarrow> state \<Rightarrow> bool \<times> state" where
  "deserialize deser ns s =
     (case s of (m, h) \<Rightarrow>
        (let representationNode = xml_child ns ''Representation'' in
         case deser (m_rulerSource m) (xml_child ns ''Ruler'') h of (ok1, h1) \<Rightarrow>
         case (if ok1 then deser (m_representation m) representationNode h1 else (False, h1)) of
           (success, h2) \<Rightarrow>
             (let m' =
                (case representationNode of
                   None \<Rightarrow> m
                 | Some rn \<Rightarrow>
                     (case xml_child rn ''ShowLine'' of
                        None \<Rightarrow> m
                      | Some showLineNode \<Rightarrow>
                          (case xml_attribute showLineNode ''value'' of
                             None \<Rightarrow> m
                           | Some valueAttribute \<Rightarrow> m\<lparr>m_showLine := as_bool valueAttribute\<rparr>)))
              in (success, (m', h2)))))"

subsection \<open>Reading a property of an owned proxy\<close>

definition ruler_property :: "state \<Rightarrow> string \<Rightarrow> prop_value option" where
  "ruler_property s name =
     (case s of (m, h) \<Rightarrow>
        (case m_rulerSource m of None \<Rightarrow> None | Some a \<Rightarrow> props (proxies h a) name))"

definition representation_property :: "state \<Rightarrow> string \<Rightarrow> prop_value option" where
  "representation_property s name =
     (case s of (m, h) \<Rightarrow>
        (case m_representation m of None \<Rightarrow> None | Some a \<Rightarrow> props (proxies h a) name))"


subsection \<open>An example session\<close>

text \<open>
  A two by two by two image with spacing 10, 20, 30 from the origin, a data source on
  it, a module as the constructor leaves it, and the module and host as
  \<open>initialize\<close> leaves them in a session that knows the ruler source. The point
  lookup of the image rounds to the nearest sample and answers -1 outside the extent,
  as \<open>vtkImageData::FindPoint\<close> does, but in exact arithmetic where VTK rounds in
  doubles: the two can differ just below the middle between two samples, and agree at
  the coordinates used below.
\<close>

definition example_FindPoint :: "real list \<Rightarrow> int" where
  "example_FindPoint x =
     (case x of
        [x0, x1, x2] \<Rightarrow>
          (let l0 = \<lfloor>x0 / 10 + 1 / 2\<rfloor>; l1 = \<lfloor>x1 / 20 + 1 / 2\<rfloor>; l2 = \<lfloor>x2 / 30 + 1 / 2\<rfloor> in
           if l0 < 0 \<or> 1 < l0 \<or> l1 < 0 \<or> 1 < l1 \<or> l2 < 0 \<or> 1 < l2 then - 1
           else l2 * 2 * 2 + l1 * 2 + l0)
      | _ \<Rightarrow> - 1)"

definition example_image :: vtkImageData where
  "example_image =
     \<lparr>GetBounds = Bounds 0 10 0 20 0 30,
      FindPoint = example_FindPoint,
      GetScalars = Some [1, 2, 3, 4, 5, 6, 7, 8]\<rparr>"

definition example_data :: DataSource where
  "example_data = \<lparr>ds_proxy = Some 0, ds_output = Some example_image, ds_units = ''nm''\<rparr>"

definition fresh_module :: module_ruler where
  "fresh_module =
     \<lparr>m_rulerSource = None, m_representation = None, m_widget = None,
      m_showLine = True, m_activeDataSource = None\<rparr>"

definition fresh_host :: host where
  "fresh_host =
     \<lparr>proxies = (\<lambda>_. \<lparr>props = Map.empty, label_format = None\<rparr>),
      next_proxy = 1,
      definitions = [(''sources'', ''Ruler'')],
      registered = [],
      connections = []\<rparr>"

definition example_module :: module_ruler where
  "example_module =
     \<lparr>m_rulerSource = Some 1, m_representation = Some 2, m_widget = None,
      m_showLine = True, m_activeDataSource = Some example_data\<rparr>"

definition example_host :: host where
  "example_host =
     \<lparr>proxies = (\<lambda>_. \<lparr>props = Map.empty, label_format = None\<rparr>)
        (1 := \<lparr>props = [''Point1'' \<mapsto> DoubleVec [0, 0, 0], ''Point2'' \<mapsto> DoubleVec [10, 20, 30]],
               label_format = None\<rparr>,
         2 := \<lparr>props = [''Visibility'' \<mapsto> IntVec [1]], label_format = Some ''%-#6.3g nm''\<rparr>),
      next_proxy = 3,
      definitions = [(''sources'', ''Ruler'')],
      registered = [1, 2],
      connections = [DataChanged_updateUnits]\<rparr>"

text \<open>
  The same module once \<open>addToPanel\<close> has made its widget and connected the widget's
  visibility signal to \<open>updateShowLine\<close>.
\<close>

definition panel_module :: module_ruler where
  "panel_module = example_module\<lparr>m_widget := Some \<lparr>widget_visible = True\<rparr>\<rparr>"

definition panel_host :: host where
  "panel_host = connect WidgetVisibilityUpdated_updateShowLine example_host"

text \<open>The host after the second end point was dragged to (40, 20, 30), off the image.\<close>

definition dragged_host :: host where
  "dragged_host =
     example_host\<lparr>proxies := (proxies example_host)
       (1 := \<lparr>props = [''Point1'' \<mapsto> DoubleVec [0, 0, 0], ''Point2'' \<mapsto> DoubleVec [40, 20, 30]],
              label_format = None\<rparr>)\<rparr>"

text \<open>
  A document with a ShowLine element that says false, and one without that element, as
  written before the preference was saved. The values under Ruler and Representation
  stand for whatever the helper keeps there.
\<close>

definition example_ruler_node :: xml_node where
  "example_ruler_node =
     Element ''Ruler'' []
       [(''Point1'', DoubleVec [0, 0, 0]), (''Point2'', DoubleVec [40, 20, 30])] []"

definition example_showLine_node :: xml_node where
  "example_showLine_node = Element ''ShowLine'' [(''value'', ''false'')] [] []"

definition example_representation_node :: xml_node where
  "example_representation_node =
     Element ''Representation'' [] [(''Visibility'', IntVec [0])] [example_showLine_node]"

definition example_document :: xml_node where
  "example_document = Element ''Module'' [] [] [example_ruler_node, example_representation_node]"

definition old_representation_node :: xml_node where
  "old_representation_node = Element ''Representation'' [] [(''Visibility'', IntVec [0])] []"

definition old_document :: xml_node where
  "old_document = Element ''Module'' [] [] [example_ruler_node, old_representation_node]"

text \<open>
  A helper to run \<open>deserialize\<close> with in the examples; the theorems below are about
  every helper. It fails without a proxy, and otherwise gives the proxy the values
  kept in the node it is handed, one after the other.
\<close>

definition example_deserializer :: deserializer where
  "example_deserializer proxy inp h =
     (case proxy of
        None \<Rightarrow> (False, h)
      | Some a \<Rightarrow>
          (case inp of
             None \<Rightarrow> (True, h)
           | Some n \<Rightarrow>
               (True, h\<lparr>proxies := (proxies h)(a := (proxies h a)\<lparr>props :=
                  fold (\<lambda>nv pr. pr(fst nv \<mapsto> snd nv)) (node_values n)
                    (props (proxies h a))\<rparr>)\<rparr>)))"

text \<open>A module that has its representation but no ruler source.\<close>

definition ruler_lost_module :: module_ruler where
  "ruler_lost_module = example_module\<lparr>m_rulerSource := None\<rparr>"

section \<open>Properties\<close>

subsection \<open>initialize\<close>

lemma initialize_example:
  "initialize True (Some example_data) (Some 7) (fresh_module, fresh_host)
     = Inr (True, (example_module, example_host))"
  by (simp add: initialize_def Module_initialize_def example_data_def example_image_def
      fresh_module_def fresh_host_def example_module_def example_host_def NewProxy_def
      PropertyHelper_Set_def UpdateVTKObjects_def RegisterPipelineProxy_def controller_Show_def
      updateUnits_def dataSource_def connect_def Let_def numeral_2_eq_2 numeral_3_eq_3)

text \<open>
  Claim C1. When \<open>initialize(data, view)\<close> succeeds, Point1 of the ruler source is the
  minimum corner (bounds[0], bounds[2], bounds[4]) of the data's bounding box and Point2
  is the maximum corner (bounds[1], bounds[3], bounds[5]).
\<close>

theorem initialize_endpoints_at_bounds:
  assumes "initialize base_ok data view s = Inr (True, s')"
  shows "\<exists>d img. data = Some d \<and> ds_output d = Some img
           \<and> ruler_property s' ''Point1'' =
               Some (DoubleVec [bounds_at (GetBounds img) 0, bounds_at (GetBounds img) 2,
                                bounds_at (GetBounds img) 4])
           \<and> ruler_property s' ''Point2'' =
               Some (DoubleVec [bounds_at (GetBounds img) 1, bounds_at (GetBounds img) 3,
                                bounds_at (GetBounds img) 5])"
  using assms
  by (cases s)
     (auto simp: initialize_def Module_initialize_def NewProxy_def PropertyHelper_Set_def
        UpdateVTKObjects_def RegisterPipelineProxy_def controller_Show_def updateUnits_def
        dataSource_def connect_def ruler_property_def Let_def
        split: option.splits if_splits sum.splits prod.splits)

theorem initialize_endpoints_at_bounds_witness:
  "initialize True (Some example_data) (Some 7) (fresh_module, fresh_host)
     = Inr (True, (example_module, example_host))
   \<and> ruler_property (example_module, example_host) ''Point1'' = Some (DoubleVec [0, 0, 0])
   \<and> ruler_property (example_module, example_host) ''Point2'' = Some (DoubleVec [10, 20, 30])"
  using initialize_endpoints_at_bounds [OF initialize_example] initialize_example
  by (simp add: example_data_def example_image_def)

subsection \<open>finalize\<close>

text \<open>
  Claim C5. \<open>finalize()\<close> always answers true and sets both owned references to null;
  afterwards \<open>isProxyPartOfModule\<close> answers false for the ruler source and for the
  representation the module owned before, whenever that object is not null.
\<close>

theorem finalize_clears_references:
  "fst (finalize (m, h)) = True
   \<and> m_rulerSource (fst (snd (finalize (m, h)))) = None
   \<and> m_representation (fst (snd (finalize (m, h)))) = None
   \<and> (m_rulerSource m \<noteq> None \<longrightarrow>
        isProxyPartOfModule (fst (snd (finalize (m, h)))) (m_rulerSource m) = False)
   \<and> (m_representation m \<noteq> None \<longrightarrow>
        isProxyPartOfModule (fst (snd (finalize (m, h)))) (m_representation m) = False)"
  by (simp add: finalize_def isProxyPartOfModule_def Let_def)

theorem finalize_clears_references_witness:
  "m_rulerSource example_module \<noteq> None \<and> m_representation example_module \<noteq> None
   \<and> isProxyPartOfModule (fst (snd (finalize (example_module, example_host)))) (Some 1) = False
   \<and> isProxyPartOfModule (fst (snd (finalize (example_module, example_host)))) (Some 2) = False"
  using finalize_clears_references [of example_module example_host]
  by (simp add: example_module_def)

text \<open>
  Claim C10. \<open>finalize()\<close> is idempotent: run again on a module that is already
  finalized, as the destructor does after an explicit \<open>finalize()\<close>, it answers true,
  changes neither the module nor the host, and both references stay null.
\<close>

theorem finalize_idempotent:
  "finalize (snd (finalize s)) = (True, snd (finalize s))
   \<and> ModuleRuler_destructor (snd (finalize s)) = snd (finalize s)
   \<and> m_rulerSource (fst (snd (finalize (snd (finalize s))))) = None
   \<and> m_representation (fst (snd (finalize (snd (finalize s))))) = None"
  by (cases s) (simp add: finalize_def ModuleRuler_destructor_def UnRegisterProxy_def Let_def)

subsection \<open>Visibility\<close>

text \<open>
  Without the cache-and-restore of \<open>setVisibility\<close>, hiding the widget of the example
  would reset the preference through the connected slot.
\<close>

lemma setWidgetVisible_example:
  "m_showLine (fst (setWidgetVisible False (panel_module, panel_host))) = False"
  by (simp add: setWidgetVisible_def panel_module_def panel_host_def connect_def
      example_module_def example_host_def updateShowLine_def)

text \<open>
  Claim C3. On a module that has its representation, \<open>setVisibility(v)\<close> answers true
  and leaves the cached ShowLine preference as it was, for every \<open>v\<close> and every prior
  preference, with or without a widget; and \<open>visibility()\<close> afterwards answers the
  value given, so true after \<open>setVisibility(true)\<close>.
\<close>

theorem setVisibility_keeps_showLine:
  assumes "m_representation m \<noteq> None"
  shows "case setVisibility v (m, h) of
           Inl e \<Rightarrow> False
         | Inr (ok, s') \<Rightarrow> ok \<and> m_showLine (fst s') = m_showLine m \<and> visibility s' = v"
  using assms
  by (auto simp: setVisibility_def PropertyHelper_Set_def UpdateVTKObjects_def
        setWidgetVisible_def updateShowLine_def visibility_def PropertyHelper_GetAsInt_def Let_def
        split: option.splits)

theorem setVisibility_keeps_showLine_witness:
  "m_representation panel_module \<noteq> None
   \<and> (case setVisibility False (panel_module, panel_host) of
         Inl e \<Rightarrow> False
       | Inr (ok, s') \<Rightarrow> ok \<and> m_showLine (fst s') = True \<and> visibility s' = False)
   \<and> (case setVisibility True (panel_module, panel_host) of
         Inl e \<Rightarrow> False
       | Inr (ok, s') \<Rightarrow> ok \<and> m_showLine (fst s') = True \<and> visibility s' = True)"
proof -
  have rep: "m_representation panel_module \<noteq> None"
    by (simp add: panel_module_def example_module_def)
  have line: "m_showLine panel_module = True"
    by (simp add: panel_module_def example_module_def)
  show ?thesis
    using setVisibility_keeps_showLine [OF rep, of False panel_host]
      setVisibility_keeps_showLine [OF rep, of True panel_host] rep
    by (auto simp: line split: sum.splits)
qed

subsection \<open>Proxies and their names\<close>

text \<open>
  Claim C8. \<open>getStringForProxy\<close> names the owned ruler source Ruler and the owned
  representation (a different object) Representation, without a warning;
  \<open>getProxyForString\<close> takes each name back to the same object; any other proxy gets
  a warning and the empty string, any other string gets null.
\<close>

theorem proxy_names:
  "getStringForProxy m (m_rulerSource m) = (''Ruler'', [])
   \<and> (m_representation m \<noteq> m_rulerSource m \<longrightarrow>
        getStringForProxy m (m_representation m) = (''Representation'', []))
   \<and> getProxyForString m (fst (getStringForProxy m (m_rulerSource m))) = m_rulerSource m
   \<and> getProxyForString m (fst (getStringForProxy m (m_representation m))) = m_representation m
   \<and> (p \<noteq> m_rulerSource m \<and> p \<noteq> m_representation m \<longrightarrow>
        getStringForProxy m p = ([], [''Unknown proxy passed to module ruler in save animation'']))
   \<and> (str \<noteq> ''Ruler'' \<and> str \<noteq> ''Representation'' \<longrightarrow> getProxyForString m str = None)"
  by (simp add: getStringForProxy_def getProxyForString_def)

theorem proxy_names_witness:
  "m_representation example_module \<noteq> m_rulerSource example_module
   \<and> getStringForProxy example_module (Some 1) = (''Ruler'', [])
   \<and> getStringForProxy example_module (Some 2) = (''Representation'', [])
   \<and> getProxyForString example_module ''Ruler'' = Some 1
   \<and> getProxyForString example_module ''Representation'' = Some 2
   \<and> getStringForProxy example_module (Some 0)
       = ([], [''Unknown proxy passed to module ruler in save animation''])
   \<and> getProxyForString example_module ''Outline'' = None"
proof -
  have ruler: "m_rulerSource example_module = Some 1"
    by (simp add: example_module_def)
  have rep: "m_representation example_module = Some 2"
    by (simp add: example_module_def)
  show ?thesis
    using proxy_names [of example_module "Some 0" "''Outline''"]
    by (auto simp: ruler rep)
qed

subsection \<open>Endpoint values\<close>

text \<open>
  When the host's lookup finds a sample for both end points, the notification carries
  the scalars stored at those two samples, and a render is requested.
\<close>

lemma endPointsUpdated_in_range:
  assumes "PropertyHelper_Get3 (m_rulerSource m) ''Point1'' h = Inr point1"
      and "PropertyHelper_Get3 (m_rulerSource m) ''Point2'' h = Inr point2"
      and "dataSource m = Some source" and "ds_proxy source \<noteq> None"
      and "ds_output source = Some img" and "GetScalars img = Some scalars"
      and "0 \<le> FindPoint img point1" and "FindPoint img point1 < int (length scalars)"
      and "0 \<le> FindPoint img point2" and "FindPoint img point2 < int (length scalars)"
  shows "endPointsUpdated (m, h) =
           Inr [newEndpointData (scalars ! nat (FindPoint img point1))
                  (scalars ! nat (FindPoint img point2)), renderNeeded]"
  using assms by (auto simp: endPointsUpdated_def GetTuple1_def Let_def split: option.splits)

lemma endPointsUpdated_example:
  "endPointsUpdated (example_module, example_host) = Inr [newEndpointData 1 8, renderNeeded]"
  by (simp add: endPointsUpdated_def example_module_def example_host_def example_data_def
      example_image_def example_FindPoint_def PropertyHelper_Get3_def dataSource_def
      GetTuple1_def Let_def)

text \<open>
  Claim C4. The claim asks for a notification with the scalars at the nearest samples
  for every pair of end points, also off the grid. In the example the second end point
  is off the image, the lookup answers -1, and \<open>endPointsUpdated()\<close> reads the scalar
  array at index -1: there is no notification.
\<close>

theorem endPointsUpdated_outside_grid:
  "FindPoint example_image [40, 20, 30] = - 1
   \<and> endPointsUpdated (example_module, dragged_host) = Inl OutOfBounds"
  by (simp add: endPointsUpdated_def example_module_def example_host_def dragged_host_def
      example_data_def example_image_def example_FindPoint_def PropertyHelper_Get3_def
      dataSource_def GetTuple1_def Let_def)

subsection \<open>serialize\<close>

text \<open>
  Claim C7. \<open>serialize(node)\<close> answers false, with its warning, when the helper fails
  on the ruler source's Point1 and Point2 or on the representation's Visibility, and
  true, without a warning, when the helper succeeds on both; whatever the helper is.
\<close>

theorem serialize_reports_failure:
  "fst (serialize ser (m, h) ns) =
     (fst (ser h (m_rulerSource m) (Element ''Ruler'' [] [] []) [''Point1'', ''Point2''])
      \<and> fst (ser h (m_representation m)
               (Element ''Representation'' [] []
                  [Element ''ShowLine'' [(''value'', set_value (m_showLine m))] [] []])
               [''Visibility'']))
   \<and> snd (snd (serialize ser (m, h) ns)) =
     (if \<not> fst (ser h (m_rulerSource m) (Element ''Ruler'' [] [] []) [''Point1'', ''Point2''])
      then [''Failed to serialize ruler'']
      else if \<not> fst (ser h (m_representation m)
               (Element ''Representation'' [] []
                  [Element ''ShowLine'' [(''value'', set_value (m_showLine m))] [] []])
               [''Visibility''])
      then [''Failed to serialize ruler representation'']
      else [])"
  by (simp add: serialize_def append_child_def Let_def split: prod.splits)

subsection \<open>deserialize\<close>

lemma example_document_nodes:
  "xml_child example_document ''Ruler'' = Some example_ruler_node"
  "xml_child example_document ''Representation'' = Some example_representation_node"
  "xml_child example_representation_node ''ShowLine'' = Some example_showLine_node"
  "xml_attribute example_showLine_node ''value'' = Some ''false''"
  by (simp_all add: xml_child_def xml_attribute_def example_document_def example_ruler_node_def
      example_representation_node_def example_showLine_node_def)

lemma old_document_nodes:
  "xml_child old_document ''Representation'' = Some old_representation_node"
  "xml_child old_representation_node ''ShowLine'' = None"
  by (simp_all add: xml_child_def old_document_def example_ruler_node_def
      old_representation_node_def)

lemma example_module_fields:
  "m_rulerSource example_module = Some 1"
  "m_representation example_module = Some 2"
  "m_showLine example_module = True"
  by (simp_all add: example_module_def)

text \<open>
  Claim C6. \<open>deserialize\<close> leaves the cached ShowLine preference as it was when the
  document has no Representation child, or that child has no ShowLine child, or the
  ShowLine child has no value attribute; and sets it to the attribute's value when all
  three are there; whatever the helper is.
\<close>

theorem deserialize_showLine_only_if_present:
  "(xml_child ns ''Representation'' = None \<longrightarrow>
      m_showLine (fst (snd (deserialize deser ns (m, h)))) = m_showLine m)
   \<and> (xml_child ns ''Representation'' = Some rn \<and> xml_child rn ''ShowLine'' = None \<longrightarrow>
      m_showLine (fst (snd (deserialize deser ns (m, h)))) = m_showLine m)
   \<and> (xml_child ns ''Representation'' = Some rn \<and> xml_child rn ''ShowLine'' = Some sl
        \<and> xml_attribute sl ''value'' = None \<longrightarrow>
      m_showLine (fst (snd (deserialize deser ns (m, h)))) = m_showLine m)
   \<and> (xml_child ns ''Representation'' = Some rn \<and> xml_child rn ''ShowLine'' = Some sl
        \<and> xml_attribute sl ''value'' = Some v \<longrightarrow>
      m_showLine (fst (snd (deserialize deser ns (m, h)))) = as_bool v)"
  by (simp add: deserialize_def Let_def split: prod.splits)

theorem deserialize_showLine_only_if_present_witness:
  "xml_child old_document ''Representation'' = Some old_representation_node
   \<and> xml_child old_representation_node ''ShowLine'' = None
   \<and> m_showLine (fst (snd (deserialize example_deserializer old_document
        (example_module, example_host)))) = True
   \<and> xml_child example_document ''Representation'' = Some example_representation_node
   \<and> xml_child example_representation_node ''ShowLine'' = Some example_showLine_node
   \<and> xml_attribute example_showLine_node ''value'' = Some ''false''
   \<and> m_showLine (fst (snd (deserialize example_deserializer example_document
        (example_module, example_host)))) = False"
  using deserialize_showLine_only_if_present
      [where ns = old_document and rn = old_representation_node
         and deser = example_deserializer and m = example_module and h = example_host]
    deserialize_showLine_only_if_present
      [where ns = example_document and rn = example_representation_node
         and sl = example_showLine_node and v = "''false''"
         and deser = example_deserializer and m = example_module and h = example_host]
  by (simp add: old_document_nodes example_document_nodes example_module_fields as_bool_def)

text \<open>
  Claim C9. \<open>deserialize\<close> is not atomic: when the document has a Representation
  child with a ShowLine child with a value attribute, the preference is set to that
  value whether or not the function answers true; the answer is the conjunction of the
  two helper verdicts; and when the helper fails on the ruler source, the answer is
  false and the host is as that first call left it, the helper not being run on the
  representation.
\<close>

theorem deserialize_not_atomic:
  assumes "xml_child ns ''Representation'' = Some rn"
      and "xml_child rn ''ShowLine'' = Some sl"
      and "xml_attribute sl ''value'' = Some v"
  shows "m_showLine (fst (snd (deserialize deser ns (m, h)))) = as_bool v
     \<and> fst (deserialize deser ns (m, h)) =
         (fst (deser (m_rulerSource m) (xml_child ns ''Ruler'') h)
          \<and> fst (deser (m_representation m) (Some rn)
                   (snd (deser (m_rulerSource m) (xml_child ns ''Ruler'') h))))
     \<and> (\<not> fst (deser (m_rulerSource m) (xml_child ns ''Ruler'') h) \<longrightarrow>
          deserialize deser ns (m, h) =
            (False, (m\<lparr>m_showLine := as_bool v\<rparr>,
                     snd (deser (m_rulerSource m) (xml_child ns ''Ruler'') h))))"
  using assms by (simp add: deserialize_def Let_def split: prod.splits)

theorem deserialize_not_atomic_witness:
  "xml_child example_document ''Representation'' = Some example_representation_node
   \<and> xml_child example_representation_node ''ShowLine'' = Some example_showLine_node
   \<and> xml_attribute example_showLine_node ''value'' = Some ''false''
   \<and> fst (example_deserializer (m_rulerSource ruler_lost_module)
            (xml_child example_document ''Ruler'') example_host) = False
   \<and> m_showLine ruler_lost_module = True
   \<and> deserialize example_deserializer example_document (ruler_lost_module, example_host)
       = (False, (ruler_lost_module\<lparr>m_showLine := False\<rparr>, example_host))
   \<and> representation_property (ruler_lost_module, example_host) ''Visibility''
       = Some (IntVec [1])"
proof -
  have failed: "example_deserializer (m_rulerSource ruler_lost_module) n example_host
       = (False, example_host)" for n
    by (simp add: example_deserializer_def ruler_lost_module_def)
  have vis: "representation_property (ruler_lost_module, example_host) ''Visibility''
       = Some (IntVec [1])"
    by (simp add: representation_property_def ruler_lost_module_def example_module_def
        example_host_def)
  have line: "m_showLine ruler_lost_module = True"
    by (simp add: ruler_lost_module_def example_module_def)
  show ?thesis
    using deserialize_not_atomic [OF example_document_nodes(2-4),
        of example_deserializer ruler_lost_module example_host]
    by (simp add: example_document_nodes failed vis line as_bool_def)
qed

end
